theory Spec2Isabelle
  imports Complex_Main
begin

section \<open>The debugger store's types (debugger_types.ts)\<close>

text \<open>
  The module declares the shape of the debugger slice of the application state: two enums,
  one constant, and interfaces and type aliases built from them. Each declaration is
  embedded as the HOL type of its values: an enum as a datatype together with the function
  giving each member its assigned value, an interface as a record, \<^verbatim>\<open>extends\<close> as record
  extension, a tuple type as a product, an index signature as a map, and \<^verbatim>\<open>T | null\<close> as
  an option.

  A TypeScript \<^verbatim>\<open>number\<close> is embedded as a real number: the finite values, without
  NaN and the infinities and without rounding.
\<close>

type_synonym number = real

subsection \<open>The feature key\<close>

definition DEBUGGER_FEATURE_KEY :: string where
  "DEBUGGER_FEATURE_KEY = ''debugger''"

subsection \<open>TensorDebugMode\<close>

datatype TensorDebugMode =
    UNSPECIFIED
  | NO_TENSOR
  | CURT_HEALTH
  | CONCISE_HEALTH
  | FULL_HEALTH
  | SHAPE
  | FULL_NUMERICS
  | FULL_TENSOR
  | REDUCE_INF_NAN_THREE_SLOTS

text \<open>The number assigned to each member by the enum declaration.\<close>

fun TensorDebugMode_value :: "TensorDebugMode \<Rightarrow> number" where
  "TensorDebugMode_value UNSPECIFIED = 0"
| "TensorDebugMode_value NO_TENSOR = 1"
| "TensorDebugMode_value CURT_HEALTH = 2"
| "TensorDebugMode_value CONCISE_HEALTH = 3"
| "TensorDebugMode_value FULL_HEALTH = 4"
| "TensorDebugMode_value SHAPE = 5"
| "TensorDebugMode_value FULL_NUMERICS = 6"
| "TensorDebugMode_value FULL_TENSOR = 7"
| "TensorDebugMode_value REDUCE_INF_NAN_THREE_SLOTS = 8"

text \<open>The members in declaration order.\<close>

definition TensorDebugMode_members :: "TensorDebugMode list" where
  "TensorDebugMode_members =
     [UNSPECIFIED, NO_TENSOR, CURT_HEALTH, CONCISE_HEALTH, FULL_HEALTH, SHAPE,
      FULL_NUMERICS, FULL_TENSOR, REDUCE_INF_NAN_THREE_SLOTS]"

subsection \<open>AlertType\<close>

datatype AlertType =
    FUNCTION_RECOMPILE_ALERT
  | INF_NAN_ALERT
  | TENSOR_SHAPE_ALERT

text \<open>The string assigned to each member by the enum declaration.\<close>

fun AlertType_value :: "AlertType \<Rightarrow> string" where
  "AlertType_value FUNCTION_RECOMPILE_ALERT = ''FunctionRecompilesAlert''"
| "AlertType_value INF_NAN_ALERT = ''InfNanAlert''"
| "AlertType_value TENSOR_SHAPE_ALERT = ''TensorShapeAlert''"

definition AlertType_members :: "AlertType list" where
  "AlertType_members = [FUNCTION_RECOMPILE_ALERT, INF_NAN_ALERT, TENSOR_SHAPE_ALERT]"

subsection \<open>Runs and stack frames\<close>

record DebuggerRunMetadata =
  start_time :: number

type_synonym DebuggerRunListing = "string \<rightharpoonup> DebuggerRunMetadata"

text \<open>
  \<^verbatim>\<open>type StackFrame = [string, string, number, string]\<close>, each item being
  \<^verbatim>\<open>[host_name, file_path, lineno, function]\<close>.
\<close>

type_synonym StackFrame = "string \<times> string \<times> number \<times> string"

type_synonym StackFramesById = "string \<rightharpoonup> StackFrame"

text \<open>
  A tuple type is an array type of fixed length: the items of a stack frame, as the array
  holds them.
\<close>

datatype JsValue = JsString string | JsNumber number

fun StackFrame_items :: "StackFrame \<Rightarrow> JsValue list" where
  "StackFrame_items (host_name, file_path, lineno, function) =
     [JsString host_name, JsString file_path, JsNumber lineno, JsString function]"

subsection \<open>Executions\<close>

record ExecutionDigest =
  op_type :: string
  output_tensor_device_ids :: "string list"

record Execution = ExecutionDigest +
  host_name :: string
  stack_frame_ids :: "string list"
  tensor_debug_mode :: number
  graph_id :: "string option"
  input_tensor_ids :: "number list"
  output_tensor_ids :: "number list"
  debug_tensor_values :: "number list option list option"

text \<open>
  \<^verbatim>\<open>tensor_debug_mode\<close> is declared \<^verbatim>\<open>number\<close>. A number is the value of a
  \<^verbatim>\<open>TensorDebugMode\<close> member when the enum assigns it to one of its members.
\<close>

definition TensorDebugMode_has_value :: "number \<Rightarrow> bool" where
  "TensorDebugMode_has_value x =
     (x \<in> set (map TensorDebugMode_value TensorDebugMode_members))"

subsection \<open>Alerts\<close>

record Alert =
  alert_type :: AlertType

text \<open>
  \<^verbatim>\<open>InfNanAlert extends Alert\<close> and redeclares \<^verbatim>\<open>alert_type\<close> with the literal type
  \<^verbatim>\<open>AlertType.INF_NAN_ALERT\<close>: its values are the extended records whose
  \<^verbatim>\<open>alert_type\<close> is that member. The field \<^verbatim>\<open>size\<close> is written \<open>size'\<close>.
\<close>

record InfNanAlert_fields = Alert +
  op_type :: string
  output_slot :: number
  size' :: number
  num_neg_inf :: number
  num_pos_inf :: number
  num_nan :: number
  execution_index :: number
  graph_execution_trace_index :: "number option"

typedef InfNanAlert = "{a :: InfNanAlert_fields. alert_type a = INF_NAN_ALERT}"
  by (rule exI [of _ "\<lparr>alert_type = INF_NAN_ALERT, op_type = [], output_slot = 0,
    size' = 0, num_neg_inf = 0, num_pos_inf = 0, num_nan = 0, execution_index = 0,
    graph_execution_trace_index = None\<rparr>"]) simp

subsection \<open>Load states and aggregates\<close>

text \<open>
  \<^verbatim>\<open>LoadState\<close> is imported from another module; the types that use it take it as the
  type parameter \<open>'ls\<close>. \<^verbatim>\<open>ExecutionDigestLoadState extends LoadState\<close>: the inherited
  members are the field \<open>loadState\<close>.
\<close>

record 'ls ExecutionDigestLoadState =
  loadState :: 'ls
  pageLoadedSizes :: "number \<rightharpoonup> number"
  numExecutions :: number

type_synonym AlertsBreakdown = "string \<rightharpoonup> number"

type_synonym AlertsByIndex = "number \<rightharpoonup> Alert"

record 'ls Alerts =
  alertsLoaded :: 'ls
  numAlerts :: number
  alertsBreakdown :: AlertsBreakdown
  alerts :: "string \<rightharpoonup> AlertsByIndex"
  executionIndices :: "string \<rightharpoonup> number list"
  focusType :: "AlertType option"

record 'ls Executions =
  numExecutionsLoaded :: 'ls
  executionDigestsLoaded :: "'ls ExecutionDigestLoadState"
  pageSize :: number
  displayCount :: number
  scrollBeginIndex :: number
  focusIndex :: "number option"
  executionDigests :: "number \<rightharpoonup> ExecutionDigest"
  executionData :: "number \<rightharpoonup> Execution"

subsection \<open>The state\<close>

record 'ls RunState =
  executions :: "'ls Executions"

record 'ls DebuggerState =
  runs :: DebuggerRunListing
  runsLoaded :: 'ls
  activeRunId :: "string option"
  alerts :: "'ls Alerts"
  executions :: "'ls Executions"
  stackFrames :: StackFramesById

text \<open>
  \<^verbatim>\<open>interface State { [DEBUGGER_FEATURE_KEY]: DebuggerState }\<close>: the interface
  declares one property, whose key is the constant. An object with further properties
  (the other slices of the root state) is a \<^verbatim>\<open>State\<close> as well, so a value is embedded
  as the object it is: a map from property keys to property values that has a
  \<^verbatim>\<open>DebuggerState\<close> under the constant. What the other properties hold is the type
  parameter \<open>'o\<close>. \<open>State_get s k\<close> is the property access \<^verbatim>\<open>s[k]\<close>, and
  \<open>State_debugger s\<close> the access to the declared property.
\<close>

datatype ('ls, 'o) StateProperty =
    DebuggerSlice "'ls DebuggerState"
  | OtherSlice 'o

typedef ('ls, 'o) State =
  "{m :: string \<rightharpoonup> ('ls, 'o) StateProperty.
      \<exists>d. m DEBUGGER_FEATURE_KEY = Some (DebuggerSlice d)}"
  by (rule exI [of _ "[DEBUGGER_FEATURE_KEY \<mapsto> DebuggerSlice undefined]"]) simp

definition State_get ::
    "('ls, 'o) State \<Rightarrow> string \<Rightarrow> ('ls, 'o) StateProperty option" where
  "State_get s k = Rep_State s k"

definition State_debugger :: "('ls, 'o) State \<Rightarrow> 'ls DebuggerState option" where
  "State_debugger s =
     (case State_get s DEBUGGER_FEATURE_KEY of
        Some (DebuggerSlice d) \<Rightarrow> Some d
      | _ \<Rightarrow> None)"

subsection \<open>Loaded sizes of pages\<close>






section \<open>Properties of the enums\<close>

lemma TensorDebugMode_members_complete: "set TensorDebugMode_members = UNIV"
proof
  show "UNIV \<subseteq> set TensorDebugMode_members"
  proof
    fix m :: TensorDebugMode
    show "m \<in> set TensorDebugMode_members"
      by (cases m) (simp_all add: TensorDebugMode_members_def)
  qed
qed simp

lemma AlertType_members_complete: "set AlertType_members = UNIV"
proof
  show "UNIV \<subseteq> set AlertType_members"
  proof
    fix t :: AlertType
    show "t \<in> set AlertType_members"
      by (cases t) (simp_all add: AlertType_members_def)
  qed
qed simp

text \<open>
  Claim C1. The members of \<^verbatim>\<open>TensorDebugMode\<close>, in declaration order, are assigned the
  numbers 0 to 8: UNSPECIFIED 0, NO_TENSOR 1, CURT_HEALTH 2, CONCISE_HEALTH 3,
  FULL_HEALTH 4, SHAPE 5, FULL_NUMERICS 6, FULL_TENSOR 7, REDUCE_INF_NAN_THREE_SLOTS 8.
  The nine members are pairwise different and there is no other member.
\<close>

theorem TensorDebugMode_values:
  "map TensorDebugMode_value TensorDebugMode_members = [0, 1, 2, 3, 4, 5, 6, 7, 8]
   \<and> TensorDebugMode_members =
       [UNSPECIFIED, NO_TENSOR, CURT_HEALTH, CONCISE_HEALTH, FULL_HEALTH, SHAPE,
        FULL_NUMERICS, FULL_TENSOR, REDUCE_INF_NAN_THREE_SLOTS]
   \<and> distinct TensorDebugMode_members
   \<and> set TensorDebugMode_members = (UNIV :: TensorDebugMode set)"
proof -
  have "map TensorDebugMode_value TensorDebugMode_members = [0, 1, 2, 3, 4, 5, 6, 7, 8]"
    by (simp add: TensorDebugMode_members_def)
  moreover have "distinct TensorDebugMode_members"
    by (simp add: TensorDebugMode_members_def)
  ultimately show ?thesis
    using TensorDebugMode_members_complete by (simp add: TensorDebugMode_members_def)
qed

text \<open>
  Claim C2. \<^verbatim>\<open>AlertType\<close> has exactly three members, and their string values are
  FUNCTION_RECOMPILE_ALERT = "FunctionRecompilesAlert", INF_NAN_ALERT = "InfNanAlert" and
  TENSOR_SHAPE_ALERT = "TensorShapeAlert".
\<close>

theorem AlertType_values:
  "AlertType_value FUNCTION_RECOMPILE_ALERT = ''FunctionRecompilesAlert''
   \<and> AlertType_value INF_NAN_ALERT = ''InfNanAlert''
   \<and> AlertType_value TENSOR_SHAPE_ALERT = ''TensorShapeAlert''
   \<and> AlertType_members = [FUNCTION_RECOMPILE_ALERT, INF_NAN_ALERT, TENSOR_SHAPE_ALERT]
   \<and> distinct AlertType_members
   \<and> length AlertType_members = 3
   \<and> set AlertType_members = (UNIV :: AlertType set)"
  using AlertType_members_complete by (simp add: AlertType_members_def)

section \<open>Properties of the records\<close>

text \<open>
  Claim C3. The constant \<^verbatim>\<open>DEBUGGER_FEATURE_KEY\<close> is the string "debugger", and every
  \<^verbatim>\<open>State\<close> holds a \<^verbatim>\<open>DebuggerState\<close> under that key: the property access at
  "debugger" gives it.
\<close>

theorem State_holds_DebuggerState_under_key:
  "DEBUGGER_FEATURE_KEY = ''debugger''
   \<and> (\<exists>d. State_get s ''debugger'' = Some (DebuggerSlice d) \<and> State_debugger s = Some d)"
proof -
  obtain d where "Rep_State s DEBUGGER_FEATURE_KEY = Some (DebuggerSlice d)"
    using Rep_State [of s] by blast
  then have "State_get s DEBUGGER_FEATURE_KEY = Some (DebuggerSlice d)
      \<and> State_debugger s = Some d"
    by (simp add: State_debugger_def State_get_def)
  then show ?thesis
    by (auto simp add: DEBUGGER_FEATURE_KEY_def)
qed

text \<open>
  The interface is open: a \<^verbatim>\<open>State\<close> may hold other properties next to the declared
  one, here one under the key "core".
\<close>

lemma State_may_hold_other_keys:
  "\<exists>s :: ('ls, nat) State.
     State_get s ''core'' = Some (OtherSlice 0) \<and> State_debugger s \<noteq> None"
proof -
  define m :: "string \<rightharpoonup> ('ls, nat) StateProperty"
    where "m = [DEBUGGER_FEATURE_KEY \<mapsto> DebuggerSlice undefined, ''core'' \<mapsto> OtherSlice 0]"
  have key: "m DEBUGGER_FEATURE_KEY = Some (DebuggerSlice undefined)"
    by (simp add: m_def DEBUGGER_FEATURE_KEY_def)
  then have "m \<in> {m. \<exists>d. m DEBUGGER_FEATURE_KEY = Some (DebuggerSlice d)}"
    by blast
  then have rep: "Rep_State (Abs_State m) = m"
    by (rule Abs_State_inverse)
  have "State_get (Abs_State m) ''core'' = Some (OtherSlice 0)"
    by (simp add: State_get_def rep) (simp add: m_def)
  moreover have "State_debugger (Abs_State m) \<noteq> None"
    by (simp add: State_debugger_def State_get_def rep key)
  ultimately show ?thesis
    by blast
qed

text \<open>
  Claim C6. Every \<^verbatim>\<open>Execution\<close> has the two fields of an \<^verbatim>\<open>ExecutionDigest\<close>,
  \<^verbatim>\<open>op_type\<close> (a string) and \<^verbatim>\<open>output_tensor_device_ids\<close> (a list of strings):
  keeping only those two fields of an \<^verbatim>\<open>Execution\<close> gives an \<^verbatim>\<open>ExecutionDigest\<close>
  with the same values in both.
\<close>

theorem Execution_is_ExecutionDigest:
  fixes e :: Execution
  shows "ExecutionDigest.truncate e =
           \<lparr>ExecutionDigest.op_type = ExecutionDigest.op_type e,
            output_tensor_device_ids = output_tensor_device_ids e\<rparr>
         \<and> ExecutionDigest.op_type (ExecutionDigest.truncate e) = ExecutionDigest.op_type e
         \<and> output_tensor_device_ids (ExecutionDigest.truncate e) =
             output_tensor_device_ids e"
  by (simp add: ExecutionDigest.truncate_def)

text \<open>
  Claim C8. Every \<^verbatim>\<open>StackFrame\<close> is a tuple of exactly four items: a host name (string),
  a file path (string), a line number (number) and a function name (string), in this
  order.
\<close>

theorem StackFrame_four_items:
  "\<exists>(h :: string) (f :: string) (l :: number) (fn :: string).
     sf = (h, f, l, fn)
     \<and> StackFrame_items sf = [JsString h, JsString f, JsNumber l, JsString fn]
     \<and> length (StackFrame_items sf) = 4"
  by (cases sf) simp

text \<open>
  Claim C10. The \<^verbatim>\<open>alert_type\<close> of every \<^verbatim>\<open>InfNanAlert\<close> is
  \<^verbatim>\<open>AlertType.INF_NAN_ALERT\<close>, the string "InfNanAlert", also when the alert is read
  as an \<^verbatim>\<open>Alert\<close>.
\<close>

theorem InfNanAlert_alert_type:
  "alert_type (Rep_InfNanAlert a) = INF_NAN_ALERT
   \<and> AlertType_value (alert_type (Rep_InfNanAlert a)) = ''InfNanAlert''
   \<and> alert_type (Alert.truncate (Rep_InfNanAlert a)) = INF_NAN_ALERT"
  using Rep_InfNanAlert [of a] by (simp add: Alert.truncate_def)

section \<open>The debug mode of an execution\<close>

text \<open>
  Claim C7, as stated, fails: \<^verbatim>\<open>tensor_debug_mode\<close> is declared \<^verbatim>\<open>number\<close>, and an
  \<^verbatim>\<open>Execution\<close> whose \<^verbatim>\<open>tensor_debug_mode\<close> is 9 carries no value of a
  \<^verbatim>\<open>TensorDebugMode\<close> member and no number between 0 and 8.
\<close>

theorem tensor_debug_mode_outside_enum:
  "\<not> TensorDebugMode_has_value (tensor_debug_mode
        \<lparr>ExecutionDigest.op_type = ''Relu'', output_tensor_device_ids = [''d0''],
         host_name = ''localhost'', stack_frame_ids = [], tensor_debug_mode = 9,
         graph_id = None, input_tensor_ids = [], output_tensor_ids = [],
         debug_tensor_values = None\<rparr>)
   \<and> \<not> tensor_debug_mode
        \<lparr>ExecutionDigest.op_type = ''Relu'', output_tensor_device_ids = [''d0''],
         host_name = ''localhost'', stack_frame_ids = [], tensor_debug_mode = 9,
         graph_id = None, input_tensor_ids = [], output_tensor_ids = [],
         debug_tensor_values = None\<rparr> \<le> 8"
  by (simp add: TensorDebugMode_has_value_def TensorDebugMode_members_def)

text \<open>
  Claim C7, amended. The \<^verbatim>\<open>tensor_debug_mode\<close> of an \<^verbatim>\<open>Execution\<close> is a number; it
  is the value of one of the nine \<^verbatim>\<open>TensorDebugMode\<close> members exactly when it is an
  integer between 0 and 8 inclusive.
\<close>

theorem tensor_debug_mode_in_enum_iff:
  fixes e :: Execution
  shows "TensorDebugMode_has_value (tensor_debug_mode e) =
           (tensor_debug_mode e \<in> \<int> \<and> 0 \<le> tensor_debug_mode e \<and> tensor_debug_mode e \<le> 8)"
proof
  assume "TensorDebugMode_has_value (tensor_debug_mode e)"
  then show "tensor_debug_mode e \<in> \<int> \<and> 0 \<le> tensor_debug_mode e \<and> tensor_debug_mode e \<le> 8"
    by (auto simp add: TensorDebugMode_has_value_def TensorDebugMode_members_def)
next
  assume range: "tensor_debug_mode e \<in> \<int> \<and> 0 \<le> tensor_debug_mode e
    \<and> tensor_debug_mode e \<le> 8"
  then obtain k :: int where k: "tensor_debug_mode e = of_int k"
    by (auto elim: Ints_cases)
  with range have "0 \<le> k \<and> k \<le> 8"
    by simp
  then have "k \<in> {0, 1, 2, 3, 4, 5, 6, 7, 8}"
    by auto
  then show "TensorDebugMode_has_value (tensor_debug_mode e)"
    using k by (auto simp add: TensorDebugMode_has_value_def TensorDebugMode_members_def)
qed

section \<open>Loaded sizes of pages\<close>






end
